theory Spec2Isabelle
  imports Complex_Main "HOL-Library.Multiset"
begin

section \<open>Data model (backend/db.py, table definitions in init_db)\<close>

text \<open>
  The persistence layer is an SQLite database.  Only the tables the scheduler reads or
  writes are modelled: the id column of \<open>flashcards\<close> (the target of the foreign key of
  \<open>srs_reviews\<close>), the rows of \<open>srs_reviews\<close> in storage order, the single row of
  \<open>srs_stats\<close> and the row \<open>'default'\<close> of \<open>srs_settings\<close>.

  Python floats (the ease factor and the coefficients) are modelled as exact reals, Python
  integers as \<open>int\<close>.  Every clock reading (\<open>time.time()\<close>) is a parameter \<open>now\<close>; the
  readings taken inside one call are modelled as one instant.

  Two limits of this model.  A double rounds: after several ratings 1 the ease factor of
  the code can lie just below the exact value (1.7999999999999998 for 1.8), and the
  interval \<open>int(interval * ease)\<close> of the code is then one less than \<open>py_int\<close> of the
  exact product (152 for 153 after the ratings 1, 1, 1, 1, 2, 2, 1).  The \<open>min\<close> and
  \<open>max\<close> clamps are exact, and the adjustment at difficulty 2 is exactly 0.  The integer
  columns of SQLite hold 64 bits; the model stores any integer.  No property below rests
  on a value where the two differ: on the concrete runs below the double arithmetic of the
  code gives the same intervals and repetitions.
\<close>

type_synonym card_id = string

record review =
  card_id :: card_id
  interval_days :: int
  ease_factor :: real
  repetition :: int
  next_review :: int
  last_review :: int
  difficulty :: int
  streak :: int

record stats =
  total_reviews :: int
  correct_answers :: int
  last_updated :: int

record settings =
  settings_id :: string
  settings_name :: string
  min_ease_factor :: real
  max_ease_factor :: real
  initial_ease_factor :: real
  initial_interval :: int
  second_interval :: int
  max_difficulty :: int
  correct_threshold :: int
  easy_bonus :: real
  easy_penalty :: real
  easy_penalty_multiplier :: real
  hard_penalty :: real
  hard_penalty_linear :: real
  hard_penalty_quadratic :: real
  graduation_interval :: int
  max_interval :: int
  min_interval :: int
  lapse_multiplier :: real
  lapse_min_interval :: int
  created_at :: int
  updated_at :: int

record database =
  flashcards :: "card_id list"
  srs_reviews :: "review list"
  srs_stats :: stats
  srs_settings :: "settings option"

text \<open>
  \<open>sqlite3.IntegrityError\<close>: get_conn switches \<open>PRAGMA foreign_keys = ON\<close>, and
  \<open>srs_reviews.card_id\<close> references \<open>flashcards (id)\<close>, so a row for an unknown card is
  refused.
\<close>

datatype error = IntegrityError

section \<open>Persistence operations (backend/db.py)\<close>

text \<open>
  upsert_srs_review: \<open>INSERT OR REPLACE INTO srs_reviews\<close>.  A row with the same primary
  key is deleted and the new row is inserted; the foreign key is checked.
\<close>

definition upsert_srs_review :: "database \<Rightarrow> review \<Rightarrow> error + database" where
  "upsert_srs_review db r =
     (if card_id r \<in> set (flashcards db)
      then Inr (db\<lparr>srs_reviews := filter (\<lambda>x. card_id x \<noteq> card_id r) (srs_reviews db) @ [r]\<rparr>)
      else Inl IntegrityError)"

text \<open>get_srs_review: \<open>SELECT * FROM srs_reviews WHERE card_id = ?\<close>, fetchone.\<close>

definition get_srs_review :: "database \<Rightarrow> card_id \<Rightarrow> review option" where
  "get_srs_review db cid = find (\<lambda>r. card_id r = cid) (srs_reviews db)"

text \<open>update_srs_stats: a relative update of the single stats row.\<close>

definition update_srs_stats :: "database \<Rightarrow> int \<Rightarrow> int \<Rightarrow> int \<Rightarrow> database" where
  "update_srs_stats db total_reviews_delta correct_answers_delta now =
     db\<lparr>srs_stats :=
          \<lparr>total_reviews = total_reviews (srs_stats db) + total_reviews_delta,
           correct_answers = correct_answers (srs_stats db) + correct_answers_delta,
           last_updated = now\<rparr>\<rparr>"

section \<open>SRSService (backend/services.py)\<close>

definition MIN_EASE_FACTOR :: real where
  "MIN_EASE_FACTOR = 1.3"

definition MAX_EASE_FACTOR :: real where
  "MAX_EASE_FACTOR = 2.5"

definition INITIAL_EASE_FACTOR :: real where
  "INITIAL_EASE_FACTOR = 2.5"

definition INITIAL_INTERVAL :: int where
  "INITIAL_INTERVAL = 1"

text \<open>Python's \<open>int(x)\<close> on a float truncates towards zero.\<close>

definition py_int :: "real \<Rightarrow> int" where
  "py_int x = (if 0 \<le> x then \<lfloor>x\<rfloor> else \<lceil>x\<rceil>)"

definition initialize_card :: "database \<Rightarrow> card_id \<Rightarrow> int \<Rightarrow> error + (database \<times> review)" where
  "initialize_card db cid now =
     (let review_data =
        \<lparr>card_id = cid,
         interval_days = INITIAL_INTERVAL,
         ease_factor = INITIAL_EASE_FACTOR,
         repetition = 0,
         next_review = now,
         last_review = 0,
         difficulty = 3,
         streak = 0\<rparr>
      in case upsert_srs_review db review_data of
           Inl e \<Rightarrow> Inl e
         | Inr db' \<Rightarrow> Inr (db', review_data))"

text \<open>
  The in-place update of the review dictionary in review_card (from \<open>was_correct\<close> to the
  assignment of \<open>difficulty\<close>), in the order of the source.
\<close>

definition apply_rating :: "review \<Rightarrow> int \<Rightarrow> int \<Rightarrow> review" where
  "apply_rating review0 d now =
     (let was_correct = (d \<le> 3);
          review1 = (if was_correct then review0\<lparr>streak := streak review0 + 1\<rparr>
                     else review0\<lparr>streak := 0\<rparr>);
          review2 =
            (if d < 3 then
               review1\<lparr>ease_factor :=
                 min MAX_EASE_FACTOR
                   (ease_factor review1
                     + (0.1 - real_of_int (3 - d) * (0.08 + real_of_int (3 - d) * 0.02)))\<rparr>
             else if d > 3 then
               review1\<lparr>ease_factor :=
                 max MIN_EASE_FACTOR
                   (ease_factor review1 - 0.8 - real_of_int (d - 4) * 0.28
                     - real_of_int (d - 4) * real_of_int (d - 4) * 0.02)\<rparr>
             else review1);
          review3 =
            (if was_correct then
               (if repetition review2 = 0 then review2\<lparr>interval_days := 1\<rparr>
                else if repetition review2 = 1 then review2\<lparr>interval_days := 6\<rparr>
                else review2\<lparr>interval_days :=
                       py_int (real_of_int (interval_days review2) * ease_factor review2)\<rparr>)
               \<lparr>repetition := repetition review2 + 1\<rparr>
             else review2\<lparr>repetition := 0, interval_days := 1\<rparr>)
      in review3\<lparr>last_review := now,
                 next_review := now + interval_days review3 * 24 * 60 * 60 * 1000,
                 difficulty := d\<rparr>)"

definition review_card :: "database \<Rightarrow> card_id \<Rightarrow> int \<Rightarrow> int \<Rightarrow> error + (database \<times> review)" where
  "review_card db cid d now =
     (case (case get_srs_review db cid of
              Some r \<Rightarrow> Inr (db, r)
            | None \<Rightarrow> initialize_card db cid now) of
        Inl e \<Rightarrow> Inl e
      | Inr (db1, review0) \<Rightarrow>
          (let review' = apply_rating review0 d now
           in case upsert_srs_review db1 review' of
                Inl e \<Rightarrow> Inl e
              | Inr db2 \<Rightarrow>
                  Inr (update_srs_stats db2 1 (if d \<le> 3 then 1 else 0) now, review')))"

text \<open>The dictionary returned by preview_review.\<close>

record preview =
  preview_card_id :: card_id
  predicted_interval_days :: int
  predicted_next_review :: int
  predicted_ease_factor :: real
  predicted_repetition :: int
  was_correct :: bool
  preview_difficulty :: int
  current :: review
  streak_if_correct :: int

definition preview_review :: "database \<Rightarrow> card_id \<Rightarrow> int \<Rightarrow> int \<Rightarrow> error + (database \<times> preview)" where
  "preview_review db cid d now =
     (case (case get_srs_review db cid of
              Some r \<Rightarrow> Inr (db, r)
            | None \<Rightarrow> initialize_card db cid now) of
        Inl e \<Rightarrow> Inl e
      | Inr (db1, existing) \<Rightarrow>
          (let correct = (d \<le> 3);
               streak' = (if correct then streak existing + 1 else 0);
               ease =
                 (if d < 3 then
                    min MAX_EASE_FACTOR
                      (ease_factor existing
                        + (0.1 - real_of_int (3 - d) * (0.08 + real_of_int (3 - d) * 0.02)))
                  else if d > 3 then
                    max MIN_EASE_FACTOR
                      (ease_factor existing - 0.8 - real_of_int (d - 4) * 0.28
                        - real_of_int (d - 4) * real_of_int (d - 4) * 0.02)
                  else ease_factor existing);
               interval =
                 (if correct then
                    (if repetition existing = 0 then 1
                     else if repetition existing = 1 then 6
                     else py_int (real_of_int (interval_days existing) * ease))
                  else 1);
               repetition' = (if correct then repetition existing + 1 else 0)
           in Inr (db1,
                \<lparr>preview_card_id = cid,
                 predicted_interval_days = interval,
                 predicted_next_review = now + interval * 24 * 60 * 60 * 1000,
                 predicted_ease_factor = ease,
                 predicted_repetition = repetition',
                 was_correct = correct,
                 preview_difficulty = d,
                 current = existing,
                 streak_if_correct = streak'\<rparr>)))"

text \<open>A run of committed reviews of one card, each with its rating and its clock reading.\<close>

fun review_all :: "database \<Rightarrow> card_id \<Rightarrow> (int \<times> int) list \<Rightarrow> error + database" where
  "review_all db cid [] = Inr db"
| "review_all db cid ((d, now) # rest) =
     (case review_card db cid d now of
        Inl e \<Rightarrow> Inl e
      | Inr (db', r) \<Rightarrow> review_all db' cid rest)"

text \<open>The database after init_db: no cards, no reviews, zeroed stats, the default profile.\<close>

definition default_settings :: "int \<Rightarrow> int \<Rightarrow> settings" where
  "default_settings created updated =
     \<lparr>settings_id = ''default'',
      settings_name = ''SuperMemo 2 (Default)'',
      min_ease_factor = 1.3,
      max_ease_factor = 2.5,
      initial_ease_factor = 2.5,
      initial_interval = 1,
      second_interval = 6,
      max_difficulty = 5,
      correct_threshold = 3,
      easy_bonus = 0.1,
      easy_penalty = 0.08,
      easy_penalty_multiplier = 0.02,
      hard_penalty = 0.8,
      hard_penalty_linear = 0.28,
      hard_penalty_quadratic = 0.02,
      graduation_interval = 21,
      max_interval = 365,
      min_interval = 1,
      lapse_multiplier = 0.0,
      lapse_min_interval = 1,
      created_at = created,
      updated_at = updated\<rparr>"

definition init_db :: "int \<Rightarrow> database" where
  "init_db now =
     \<lparr>flashcards = [],
      srs_reviews = [],
      srs_stats = \<lparr>total_reviews = 0, correct_answers = 0, last_updated = now\<rparr>,
      srs_settings = Some (default_settings now now)\<rparr>"

text \<open>The state initialize_card builds, with the values of its constants.\<close>

definition fresh_review :: "card_id \<Rightarrow> int \<Rightarrow> review" where
  "fresh_review cid now =
     \<lparr>card_id = cid, interval_days = 1, ease_factor = 2.5, repetition = 0,
      next_review = now, last_review = 0, difficulty = 3, streak = 0\<rparr>"

text \<open>What a call left behind: the value it returned, and the stored rows.\<close>

definition returned :: "error + (database \<times> 'a) \<Rightarrow> 'a option" where
  "returned res = (case res of Inl e \<Rightarrow> None | Inr (db', r) \<Rightarrow> Some r)"

definition stored_reviews :: "error + database \<Rightarrow> review list option" where
  "stored_reviews res = (case res of Inl e \<Rightarrow> None | Inr db' \<Rightarrow> Some (srs_reviews db'))"

definition database_after :: "error + (database \<times> 'a) \<Rightarrow> error + database" where
  "database_after res = (case res of Inl e \<Rightarrow> Inl e | Inr (db', x) \<Rightarrow> Inr db')"

text \<open>The bounds a settings profile puts on the ease factor of a review state.\<close>

definition ease_within :: "settings \<Rightarrow> review \<Rightarrow> bool" where
  "ease_within s r = (min_ease_factor s \<le> ease_factor r \<and> ease_factor r \<le> max_ease_factor s)"

section \<open>Due queue (backend/db.py, get_cards_due_for_review)\<close>

text \<open>
  SQLite's \<open>LIMIT ?\<close>: a negative value means no upper bound on the number of rows.
\<close>

definition sql_limit :: "int \<Rightarrow> 'a list \<Rightarrow> 'a list" where
  "sql_limit n xs = (if n < 0 then xs else take (nat n) xs)"

text \<open>
  \<open>SELECT * FROM srs_reviews WHERE next_review <= ? ORDER BY next_review LIMIT ?\<close>.
  SQL leaves the order of rows with equal keys open; the model keeps their storage order.
\<close>

definition get_cards_due_for_review :: "database \<Rightarrow> int \<Rightarrow> int \<Rightarrow> review list" where
  "get_cards_due_for_review db limit current_time =
     sql_limit limit
       (sort_key next_review (filter (\<lambda>r. next_review r \<le> current_time) (srs_reviews db)))"

section \<open>Streak (backend/db.py, get_srs_streak)\<close>

text \<open>
  \<open>time.strftime('%Y-%m-%d', time.gmtime(t))\<close> names the UTC calendar day of \<open>t\<close> seconds;
  the model uses the number of that day since the epoch in place of its name.
\<close>

definition utc_day :: "real \<Rightarrow> int" where
  "utc_day t = \<lfloor>t\<rfloor> div 86400"

definition days_with_review :: "database \<Rightarrow> int set" where
  "days_with_review db =
     set (map (\<lambda>r. utc_day (real_of_int (last_review r) / 1000))
            (filter (\<lambda>r. difficulty r \<le> 3) (srs_reviews db)))"

text \<open>The loop \<open>for i in range(0, 365)\<close> with its \<open>break\<close>.\<close>

function streak_loop :: "int set \<Rightarrow> real \<Rightarrow> int \<Rightarrow> int \<Rightarrow> int" where
  "streak_loop days now i n =
     (if i < 365 then
        (if utc_day (now - real_of_int i * 86400) \<in> days
         then streak_loop days now (i + 1) (n + 1)
         else n)
      else n)"
  by pat_completeness auto
termination
  by (relation "measure (\<lambda>(days, now, i, n). nat (365 - i))") auto

definition get_srs_streak :: "database \<Rightarrow> real \<Rightarrow> int \<times> bool" where
  "get_srs_streak db now =
     (let days = days_with_review db
      in if days = {} then (0, False)
         else (streak_loop days now 0 0, utc_day now \<in> days))"

section \<open>Stats endpoint (backend/app.py, update_srs_stats_endpoint)\<close>

text \<open>
  The JSON body of a request: the keys the endpoint reads, when present, and the names of
  the other keys.  A body without any key is empty.
\<close>

record stats_body =
  body_total_reviews_delta :: "int option"
  body_correct_answers_delta :: "int option"
  stats_other_keys :: "string list"

datatype bad_request = Missing_JSON_body | Validation "string list"

definition update_srs_stats_endpoint :: "database \<Rightarrow> stats_body \<Rightarrow> int \<Rightarrow> bad_request + database" where
  "update_srs_stats_endpoint db data now =
     (if body_total_reviews_delta data = None \<and> body_correct_answers_delta data = None
          \<and> stats_other_keys data = []
      then Inl Missing_JSON_body
      else Inr (update_srs_stats db
                 (case body_total_reviews_delta data of None \<Rightarrow> 0 | Some v \<Rightarrow> v)
                 (case body_correct_answers_delta data of None \<Rightarrow> 0 | Some v \<Rightarrow> v)
                 now))"

text \<open>
  The operations that write the stats row: a committed review and the relative adjustment.
  A request that fails leaves the database as it was.
\<close>

datatype operation = Review card_id int | Adjust_stats stats_body

fun perform :: "database \<Rightarrow> operation \<times> int \<Rightarrow> database" where
  "perform db (Review cid d, now) =
     (case review_card db cid d now of Inl e \<Rightarrow> db | Inr (db', r) \<Rightarrow> db')"
| "perform db (Adjust_stats data, now) =
     (case update_srs_stats_endpoint db data now of Inl e \<Rightarrow> db | Inr db' \<Rightarrow> db')"

definition perform_all :: "database \<Rightarrow> (operation \<times> int) list \<Rightarrow> database" where
  "perform_all db ops = foldl perform db ops"

text \<open>An adjustment whose deltas keep the counters plausible.\<close>

fun plausible :: "operation \<times> int \<Rightarrow> bool" where
  "plausible (Review cid d, now) = True"
| "plausible (Adjust_stats data, now) =
     (0 \<le> (case body_correct_answers_delta data of None \<Rightarrow> 0 | Some v \<Rightarrow> v)
      \<and> (case body_correct_answers_delta data of None \<Rightarrow> 0 | Some v \<Rightarrow> v)
          \<le> (case body_total_reviews_delta data of None \<Rightarrow> 0 | Some v \<Rightarrow> v))"

section \<open>Settings (backend/db.py and backend/app.py)\<close>

definition get_srs_settings :: "database \<Rightarrow> int \<Rightarrow> settings" where
  "get_srs_settings db now =
     (case srs_settings db of Some row \<Rightarrow> row | None \<Rightarrow> default_settings now now)"

text \<open>
  The JSON body of a settings update: the value of each column it supplies, and the names
  of its other keys (which update_srs_settings skips, as it skips \<open>id\<close> and \<open>created_at\<close>;
  a supplied \<open>updated_at\<close> is overwritten by the clock).
\<close>

record settings_body =
  new_name :: "string option"
  new_min_ease_factor :: "real option"
  new_max_ease_factor :: "real option"
  new_initial_ease_factor :: "real option"
  new_initial_interval :: "int option"
  new_second_interval :: "int option"
  new_max_difficulty :: "int option"
  new_correct_threshold :: "int option"
  new_easy_bonus :: "real option"
  new_easy_penalty :: "real option"
  new_easy_penalty_multiplier :: "real option"
  new_hard_penalty :: "real option"
  new_hard_penalty_linear :: "real option"
  new_hard_penalty_quadratic :: "real option"
  new_graduation_interval :: "int option"
  new_max_interval :: "int option"
  new_min_interval :: "int option"
  new_lapse_multiplier :: "real option"
  new_lapse_min_interval :: "int option"
  settings_other_keys :: "string list"

definition supplied_or :: "'a option \<Rightarrow> 'a \<Rightarrow> 'a" where
  "supplied_or new old = (case new of Some v \<Rightarrow> v | None \<Rightarrow> old)"

text \<open>update_srs_settings of db.py: the supplied columns overwrite the current row.\<close>

definition update_srs_settings :: "database \<Rightarrow> settings_body \<Rightarrow> int \<Rightarrow> database" where
  "update_srs_settings db data now =
     (let cur = get_srs_settings db now
      in db\<lparr>srs_settings := Some
           \<lparr>settings_id = settings_id cur,
            settings_name = supplied_or (new_name data) (settings_name cur),
            min_ease_factor = supplied_or (new_min_ease_factor data) (min_ease_factor cur),
            max_ease_factor = supplied_or (new_max_ease_factor data) (max_ease_factor cur),
            initial_ease_factor =
              supplied_or (new_initial_ease_factor data) (initial_ease_factor cur),
            initial_interval = supplied_or (new_initial_interval data) (initial_interval cur),
            second_interval = supplied_or (new_second_interval data) (second_interval cur),
            max_difficulty = supplied_or (new_max_difficulty data) (max_difficulty cur),
            correct_threshold = supplied_or (new_correct_threshold data) (correct_threshold cur),
            easy_bonus = supplied_or (new_easy_bonus data) (easy_bonus cur),
            easy_penalty = supplied_or (new_easy_penalty data) (easy_penalty cur),
            easy_penalty_multiplier =
              supplied_or (new_easy_penalty_multiplier data) (easy_penalty_multiplier cur),
            hard_penalty = supplied_or (new_hard_penalty data) (hard_penalty cur),
            hard_penalty_linear =
              supplied_or (new_hard_penalty_linear data) (hard_penalty_linear cur),
            hard_penalty_quadratic =
              supplied_or (new_hard_penalty_quadratic data) (hard_penalty_quadratic cur),
            graduation_interval =
              supplied_or (new_graduation_interval data) (graduation_interval cur),
            max_interval = supplied_or (new_max_interval data) (max_interval cur),
            min_interval = supplied_or (new_min_interval data) (min_interval cur),
            lapse_multiplier = supplied_or (new_lapse_multiplier data) (lapse_multiplier cur),
            lapse_min_interval =
              supplied_or (new_lapse_min_interval data) (lapse_min_interval cur),
            created_at = created_at cur,
            updated_at = now\<rparr>\<rparr>)"

text \<open>The checks of the endpoint, in its order; every failed check adds its message.\<close>

definition validation_errors :: "settings_body \<Rightarrow> string list" where
  "validation_errors data =
     (case (new_min_ease_factor data, new_max_ease_factor data) of
        (Some min_ease, Some max_ease) \<Rightarrow>
          if min_ease \<ge> max_ease
          then [''Minimum ease factor must be less than maximum ease factor''] else []
      | _ \<Rightarrow> [])
     @ (case new_min_ease_factor data of
          Some min_ease \<Rightarrow>
            if min_ease < 1.0 \<or> min_ease > 3.0
            then [''Minimum ease factor must be between 1.0 and 3.0''] else []
        | None \<Rightarrow> [])
     @ (case new_max_ease_factor data of
          Some max_ease \<Rightarrow>
            if max_ease < 1.0 \<or> max_ease > 5.0
            then [''Maximum ease factor must be between 1.0 and 5.0''] else []
        | None \<Rightarrow> [])
     @ (case new_initial_interval data of
          Some v \<Rightarrow> if v < 1 then [''Initial interval must be at least 1 day''] else []
        | None \<Rightarrow> [])
     @ (case new_second_interval data of
          Some v \<Rightarrow> if v < 1 then [''Second interval must be at least 1 day''] else []
        | None \<Rightarrow> [])
     @ (case new_max_interval data of
          Some v \<Rightarrow> if v < 1 then [''Maximum interval must be at least 1 day''] else []
        | None \<Rightarrow> [])
     @ (case (new_correct_threshold data, new_max_difficulty data) of
          (Some ct, Some md) \<Rightarrow>
            if ct \<ge> md
            then [''Correct threshold must be less than maximum difficulty''] else []
        | _ \<Rightarrow> [])"

definition empty_body :: settings_body where
  "empty_body =
     \<lparr>new_name = None, new_min_ease_factor = None, new_max_ease_factor = None,
      new_initial_ease_factor = None, new_initial_interval = None,
      new_second_interval = None, new_max_difficulty = None, new_correct_threshold = None,
      new_easy_bonus = None, new_easy_penalty = None, new_easy_penalty_multiplier = None,
      new_hard_penalty = None, new_hard_penalty_linear = None,
      new_hard_penalty_quadratic = None, new_graduation_interval = None,
      new_max_interval = None, new_min_interval = None, new_lapse_multiplier = None,
      new_lapse_min_interval = None, settings_other_keys = []\<rparr>"

definition update_srs_settings_endpoint ::
    "database \<Rightarrow> settings_body \<Rightarrow> int \<Rightarrow> bad_request + database" where
  "update_srs_settings_endpoint db data now =
     (if data = empty_body then Inl Missing_JSON_body
      else if validation_errors data \<noteq> [] then Inl (Validation (validation_errors data))
      else Inr (update_srs_settings db data now))"

text \<open>The cross-field constraints a stored profile is meant to satisfy.\<close>

definition settings_valid :: "settings \<Rightarrow> bool" where
  "settings_valid s =
     (min_ease_factor s < max_ease_factor s
      \<and> 1.0 \<le> min_ease_factor s \<and> min_ease_factor s \<le> 3.0
      \<and> 1.0 \<le> max_ease_factor s \<and> max_ease_factor s \<le> 5.0
      \<and> 1 \<le> initial_interval s \<and> 1 \<le> second_interval s \<and> 1 \<le> max_interval s
      \<and> correct_threshold s < max_difficulty s)"

definition stored_settings_valid :: "bad_request + database \<Rightarrow> bool option" where
  "stored_settings_valid res =
     (case res of
        Inl e \<Rightarrow> None
      | Inr db' \<Rightarrow> map_option settings_valid (srs_settings db'))"

section \<open>Runs and concrete databases used below\<close>

text \<open>One flashcard, created at time 0, that has no review row.\<close>

definition one_card_db :: database where
  "one_card_db = (init_db 0)\<lparr>flashcards := [''card-1'']\<rparr>"

text \<open>A card is initialised and then reviewed, as when it is created and studied.\<close>

definition initialize_then_review ::
    "database \<Rightarrow> card_id \<Rightarrow> int \<Rightarrow> (int \<times> int) list \<Rightarrow> error + database" where
  "initialize_then_review db cid t0 ratings =
     (case initialize_card db cid t0 of
        Inl e \<Rightarrow> Inl e
      | Inr (db0, r0) \<Rightarrow> review_all db0 cid ratings)"

definition then_review ::
    "error + database \<Rightarrow> card_id \<Rightarrow> int \<Rightarrow> int \<Rightarrow> error + (database \<times> review)" where
  "then_review res cid d now =
     (case res of Inl e \<Rightarrow> Inl e | Inr db \<Rightarrow> review_card db cid d now)"

text \<open>A profile the settings endpoint accepts: the ease factor bounded by 2 and 3.\<close>

definition narrow_bounds_db :: database where
  "narrow_bounds_db =
     one_card_db\<lparr>srs_settings :=
       Some ((default_settings 0 0)\<lparr>min_ease_factor := 2, max_ease_factor := 3\<rparr>)\<rparr>"

text \<open>A profile whose second interval is 10 days.\<close>

definition second_interval_db :: database where
  "second_interval_db =
     one_card_db\<lparr>srs_settings := Some ((default_settings 0 0)\<lparr>second_interval := 10\<rparr>)\<rparr>"

text \<open>The card of \<open>one_card_db\<close> with its freshly initialised review state stored.\<close>

definition initialized_db :: database where
  "initialized_db = one_card_db\<lparr>srs_reviews := [fresh_review ''card-1'' 0]\<rparr>"

text \<open>The same card after one correct review: its repetition count is 1.\<close>

definition reviewed_once_db :: database where
  "reviewed_once_db =
     one_card_db\<lparr>srs_reviews := [(fresh_review ''card-1'' 0)\<lparr>repetition := 1\<rparr>]\<rparr>"

text \<open>Three cards with review rows due at 50, 10 and 99.\<close>

definition due_row :: "card_id \<Rightarrow> int \<Rightarrow> review" where
  "due_row cid t = (fresh_review cid t)\<lparr>last_review := t\<rparr>"

definition three_rows_db :: database where
  "three_rows_db =
     \<lparr>flashcards = [''a'', ''b'', ''c''],
      srs_reviews = [due_row ''a'' 50, due_row ''b'' 10, due_row ''c'' 99],
      srs_stats = \<lparr>total_reviews = 0, correct_answers = 0, last_updated = 0\<rparr>,
      srs_settings = Some (default_settings 0 0)\<rparr>"

text \<open>A settings update that supplies only the maximum ease factor.\<close>

definition only_max_ease :: settings_body where
  "only_max_ease = empty_body\<lparr>new_max_ease_factor := Some 1.2\<rparr>"

text \<open>Stats requests: a plausible one, and two that no check refuses.\<close>

definition plausible_adjustment :: stats_body where
  "plausible_adjustment =
     \<lparr>body_total_reviews_delta = Some 2, body_correct_answers_delta = Some 1,
      stats_other_keys = []\<rparr>"

definition correct_only_adjustment :: stats_body where
  "correct_only_adjustment =
     \<lparr>body_total_reviews_delta = None, body_correct_answers_delta = Some 1,
      stats_other_keys = []\<rparr>"

definition negative_adjustment :: stats_body where
  "negative_adjustment =
     \<lparr>body_total_reviews_delta = Some (- 1), body_correct_answers_delta = None,
      stats_other_keys = []\<rparr>"

definition sample_ops :: "(operation \<times> int) list" where
  "sample_ops = [(Review ''card-1'' 2, 1000), (Adjust_stats plausible_adjustment, 2000)]"

text \<open>The streak read from the database a run of calls left behind.\<close>

definition streak_after :: "error + database \<Rightarrow> real \<Rightarrow> (int \<times> bool) option" where
  "streak_after res now = (case res of Inl e \<Rightarrow> None | Inr db \<Rightarrow> Some (get_srs_streak db now))"

text \<open>
  Three cards whose latest correct reviews fall on the UTC days 100, 101 and 102 (one
  second after midnight each).
\<close>

definition three_days_db :: database where
  "three_days_db =
     \<lparr>flashcards = [''a'', ''b'', ''c''],
      srs_reviews = [due_row ''a'' 8640001000, due_row ''b'' 8726401000,
                     due_row ''c'' 8812801000],
      srs_stats = \<lparr>total_reviews = 3, correct_answers = 3, last_updated = 8812801000\<rparr>,
      srs_settings = Some (default_settings 0 0)\<rparr>"

section \<open>Properties\<close>

subsection \<open>The store and the outcome of a committed review\<close>

lemma find_append_miss:
  "find P xs = None \<Longrightarrow> find P (xs @ ys) = find P ys"
  by (induction xs) (auto split: if_splits)

lemma find_filter_neg: "find P (filter (\<lambda>x. \<not> P x) xs) = None"
  by (induction xs) auto

lemma find_holds: "find P xs = Some x \<Longrightarrow> P x"
  by (induction xs) (auto split: if_splits)

lemma get_srs_review_card_id: "get_srs_review db cid = Some r \<Longrightarrow> card_id r = cid"
  unfolding get_srs_review_def by (drule find_holds) simp

lemma get_srs_review_upsert:
  "upsert_srs_review db r = Inr db' \<Longrightarrow> get_srs_review db' (card_id r) = Some r"
  using find_filter_neg[of "\<lambda>x. card_id x = card_id r" "srs_reviews db"]
  by (auto simp: upsert_srs_review_def get_srs_review_def find_append_miss split: if_splits)

lemma upsert_known:
  "card_id r \<in> set (flashcards db) \<Longrightarrow>
   upsert_srs_review db r =
     Inr (db\<lparr>srs_reviews := filter (\<lambda>x. card_id x \<noteq> card_id r) (srs_reviews db) @ [r]\<rparr>)"
  by (simp add: upsert_srs_review_def)

lemma upsert_unknown:
  "card_id r \<notin> set (flashcards db) \<Longrightarrow> upsert_srs_review db r = Inl IntegrityError"
  by (simp add: upsert_srs_review_def)

lemma card_id_apply_rating [simp]: "card_id (apply_rating r d now) = card_id r"
  by (simp add: apply_rating_def Let_def)

lemma initialize_card_known:
  "cid \<in> set (flashcards db) \<Longrightarrow>
   initialize_card db cid now =
     Inr (db\<lparr>srs_reviews := filter (\<lambda>x. card_id x \<noteq> cid) (srs_reviews db) @ [fresh_review cid now]\<rparr>,
          fresh_review cid now)"
  by (simp add: initialize_card_def upsert_srs_review_def fresh_review_def Let_def
      INITIAL_INTERVAL_def INITIAL_EASE_FACTOR_def)

lemma initialize_card_unknown:
  "cid \<notin> set (flashcards db) \<Longrightarrow> initialize_card db cid now = Inl IntegrityError"
  by (simp add: initialize_card_def upsert_srs_review_def Let_def)

lemma review_card_stored:
  assumes "get_srs_review db cid = Some r0" and "cid \<in> set (flashcards db)"
  shows "review_card db cid d now =
     Inr (update_srs_stats
            (db\<lparr>srs_reviews := filter (\<lambda>x. card_id x \<noteq> cid) (srs_reviews db)
                                @ [apply_rating r0 d now]\<rparr>)
            1 (if d \<le> 3 then 1 else 0) now,
          apply_rating r0 d now)"
proof -
  have "card_id r0 = cid" using assms(1) by (rule get_srs_review_card_id)
  then show ?thesis using assms
    by (simp add: review_card_def upsert_srs_review_def Let_def)
qed

lemma review_card_fresh:
  assumes "get_srs_review db cid = None" and "cid \<in> set (flashcards db)"
  shows "review_card db cid d now =
     Inr (update_srs_stats
            (db\<lparr>srs_reviews := filter (\<lambda>x. card_id x \<noteq> cid) (srs_reviews db)
                                @ [apply_rating (fresh_review cid now) d now]\<rparr>)
            1 (if d \<le> 3 then 1 else 0) now,
          apply_rating (fresh_review cid now) d now)"
  using assms
  by (simp add: review_card_def initialize_card_known upsert_srs_review_def Let_def fresh_review_def)

lemma review_card_unknown:
  assumes "cid \<notin> set (flashcards db)"
  shows "review_card db cid d now = Inl IntegrityError"
proof (cases "get_srs_review db cid")
  case None
  then show ?thesis using assms by (simp add: review_card_def initialize_card_unknown)
next
  case (Some r0)
  then have "card_id r0 = cid" by (rule get_srs_review_card_id)
  then show ?thesis using assms Some
    by (simp add: review_card_def upsert_srs_review_def Let_def)
qed

lemma review_card_result:
  assumes "review_card db cid d now = Inr (db', r)"
  shows "cid \<in> set (flashcards db) \<and> flashcards db' = flashcards db
       \<and> srs_settings db' = srs_settings db
       \<and> get_srs_review db' cid = Some r
       \<and> r = apply_rating (case get_srs_review db cid of Some r0 \<Rightarrow> r0 | None \<Rightarrow> fresh_review cid now) d now"
proof -
  have known: "cid \<in> set (flashcards db)"
    using assms review_card_unknown[of cid db d now] by auto
  show ?thesis
  proof (cases "get_srs_review db cid")
    case None
    from review_card_fresh[OF None known, of d now] assms
    have r: "r = apply_rating (fresh_review cid now) d now"
      and db': "db' = update_srs_stats
            (db\<lparr>srs_reviews := filter (\<lambda>x. card_id x \<noteq> cid) (srs_reviews db)
                                @ [apply_rating (fresh_review cid now) d now]\<rparr>)
            1 (if d \<le> 3 then 1 else 0) now" by auto
    have "card_id r = cid" by (simp add: r fresh_review_def)
    then have "get_srs_review db' cid = Some r"
      using find_filter_neg[of "\<lambda>x. card_id x = cid" "srs_reviews db"]
      by (simp add: db' update_srs_stats_def get_srs_review_def find_append_miss r)
    then show ?thesis using known None r by (simp add: db' update_srs_stats_def)
  next
    case (Some r0)
    from review_card_stored[OF Some known, of d now] assms
    have r: "r = apply_rating r0 d now"
      and db': "db' = update_srs_stats
            (db\<lparr>srs_reviews := filter (\<lambda>x. card_id x \<noteq> cid) (srs_reviews db)
                                @ [apply_rating r0 d now]\<rparr>)
            1 (if d \<le> 3 then 1 else 0) now" by auto
    have "card_id r = cid" using get_srs_review_card_id[OF Some] by (simp add: r)
    then have "get_srs_review db' cid = Some r"
      using find_filter_neg[of "\<lambda>x. card_id x = cid" "srs_reviews db"]
      by (simp add: db' update_srs_stats_def get_srs_review_def find_append_miss r)
    then show ?thesis using known Some r by (simp add: db' update_srs_stats_def)
  qed
qed

subsection \<open>Evaluation\<close>

lemmas eval_defs = init_db_def
  initialize_card_def review_card_def upsert_srs_review_def get_srs_review_def update_srs_stats_def
  apply_rating_def py_int_def Let_def
  INITIAL_INTERVAL_def INITIAL_EASE_FACTOR_def MAX_EASE_FACTOR_def MIN_EASE_FACTOR_def

subsection \<open>The scenario of the default profile\<close>

text \<open>
  C3, as stated: after initialisation, the first review with difficulty 2 gives
  \<open>interval_days = 6\<close>.  The code gives 1 there: at repetition 0 a correct answer sets the
  interval to 1, and 6 is the interval of the second correct answer.
\<close>

theorem first_review_interval_counterexample:
  "map_option (map interval_days)
     (stored_reviews (initialize_then_review one_card_db ''card-1'' 0 [(2, 1000)])) = Some [1]
   \<and> map_option (map interval_days)
     (stored_reviews (initialize_then_review one_card_db ''card-1'' 0 [(2, 1000)])) \<noteq> Some [6]"
  by (simp add: eval_defs initialize_then_review_def one_card_db_def stored_reviews_def)

text \<open>The review state after a rating, field by field.\<close>

lemma apply_rating_fields:
  "apply_rating r d now =
     \<lparr>card_id = card_id r,
      interval_days =
        (if d \<le> 3 then
           (if repetition r = 0 then 1 else if repetition r = 1 then 6
            else py_int (real_of_int (interval_days r) * ease_factor (apply_rating r d now)))
         else 1),
      ease_factor =
        (if d < 3 then min 2.5 (ease_factor r + (0.1 - real_of_int (3 - d) * (0.08 + real_of_int (3 - d) * 0.02)))
         else if d > 3 then max 1.3 (ease_factor r - 0.8 - real_of_int (d - 4) * 0.28
                     - real_of_int (d - 4) * real_of_int (d - 4) * 0.02)
         else ease_factor r),
      repetition = (if d \<le> 3 then repetition r + 1 else 0),
      next_review = now + (if d \<le> 3 then
           (if repetition r = 0 then 1 else if repetition r = 1 then 6
            else py_int (real_of_int (interval_days r) * ease_factor (apply_rating r d now)))
         else 1) * 24 * 60 * 60 * 1000,
      last_review = now,
      difficulty = d,
      streak = (if d \<le> 3 then streak r + 1 else 0)\<rparr>"
  by (simp add: apply_rating_def Let_def MAX_EASE_FACTOR_def MIN_EASE_FACTOR_def)

text \<open>
  C3, amended: from a freshly initialised card (interval 1, ease 2.5, repetition 0,
  difficulty 3), a review with difficulty 2 yields interval 1 and repetition 1; a second
  review with difficulty 2 yields interval 6 and repetition 2; a review with difficulty 5
  then yields repetition 0, interval 1 and the ease factor 1.4, which is lower than before
  and not below the minimum 1.3.
\<close>

theorem scenario_default_profile:
  assumes "cid \<in> set (flashcards db)"
  shows "\<exists>db0 r0 db1 r1 db2 r2 db3 r3.
     initialize_card db cid t0 = Inr (db0, r0)
     \<and> interval_days r0 = 1 \<and> ease_factor r0 = 2.5 \<and> repetition r0 = 0 \<and> difficulty r0 = 3
     \<and> review_card db0 cid 2 t1 = Inr (db1, r1)
     \<and> interval_days r1 = 1 \<and> repetition r1 = 1
     \<and> review_card db1 cid 2 t2 = Inr (db2, r2)
     \<and> interval_days r2 = 6 \<and> repetition r2 = 2 \<and> ease_factor r2 = 2.5
     \<and> review_card db2 cid 5 t3 = Inr (db3, r3)
     \<and> repetition r3 = 0 \<and> interval_days r3 = 1
     \<and> ease_factor r3 = 1.4 \<and> ease_factor r3 < ease_factor r2 \<and> MIN_EASE_FACTOR \<le> ease_factor r3"
proof -
  define r0 where "r0 = fresh_review cid t0"
  define db0 where "db0 = db\<lparr>srs_reviews := filter (\<lambda>x. card_id x \<noteq> cid) (srs_reviews db) @ [r0]\<rparr>"
  have i0: "initialize_card db cid t0 = Inr (db0, r0)"
    unfolding db0_def r0_def by (rule initialize_card_known[OF assms])
  have k0: "cid \<in> set (flashcards db0)" using assms by (simp add: db0_def)
  have g0: "get_srs_review db0 cid = Some r0"
    using find_filter_neg[of "\<lambda>x. card_id x = cid" "srs_reviews db"]
    by (simp add: db0_def get_srs_review_def find_append_miss r0_def fresh_review_def)
  define r1 where "r1 = apply_rating r0 2 t1"
  obtain db1 where s1: "review_card db0 cid 2 t1 = Inr (db1, r1)"
    using review_card_stored[OF g0 k0, of 2 t1] by (simp add: r1_def)
  from review_card_result[OF s1] have k1: "cid \<in> set (flashcards db1)"
    and g1: "get_srs_review db1 cid = Some r1" by simp_all
  define r2 where "r2 = apply_rating r1 2 t2"
  obtain db2 where s2: "review_card db1 cid 2 t2 = Inr (db2, r2)"
    using review_card_stored[OF g1 k1, of 2 t2] by (simp add: r2_def)
  from review_card_result[OF s2] have k2: "cid \<in> set (flashcards db2)"
    and g2: "get_srs_review db2 cid = Some r2" by simp_all
  define r3 where "r3 = apply_rating r2 5 t3"
  obtain db3 where s3: "review_card db2 cid 5 t3 = Inr (db3, r3)"
    using review_card_stored[OF g2 k2, of 5 t3] by (simp add: r3_def)
  have f0: "interval_days r0 = 1 \<and> ease_factor r0 = 2.5 \<and> repetition r0 = 0 \<and> difficulty r0 = 3"
    by (simp add: r0_def fresh_review_def)
  have f1: "interval_days r1 = 1 \<and> repetition r1 = 1 \<and> ease_factor r1 = 2.5"
    unfolding r1_def by (subst (1 2 3) apply_rating_fields) (simp add: f0)
  have f2: "interval_days r2 = 6 \<and> repetition r2 = 2 \<and> ease_factor r2 = 2.5"
    unfolding r2_def by (subst (1 2 3) apply_rating_fields) (simp add: f1)
  have f3: "interval_days r3 = 1 \<and> repetition r3 = 0 \<and> ease_factor r3 = 1.4"
    unfolding r3_def by (subst (1 2 3) apply_rating_fields) (simp add: f2)
  show ?thesis
    using i0 s1 s2 s3 f0 f1 f2 f3 by (simp add: MIN_EASE_FACTOR_def)
qed

theorem scenario_default_profile_witness:
  "''card-1'' \<in> set (flashcards one_card_db)
   \<and> (\<exists>db0 r0 db1 r1 db2 r2 db3 r3.
     initialize_card one_card_db ''card-1'' 0 = Inr (db0, r0)
     \<and> interval_days r0 = 1 \<and> ease_factor r0 = 2.5 \<and> repetition r0 = 0 \<and> difficulty r0 = 3
     \<and> review_card db0 ''card-1'' 2 1000 = Inr (db1, r1)
     \<and> interval_days r1 = 1 \<and> repetition r1 = 1
     \<and> review_card db1 ''card-1'' 2 2000 = Inr (db2, r2)
     \<and> interval_days r2 = 6 \<and> repetition r2 = 2 \<and> ease_factor r2 = 2.5
     \<and> review_card db2 ''card-1'' 5 3000 = Inr (db3, r3)
     \<and> repetition r3 = 0 \<and> interval_days r3 = 1
     \<and> ease_factor r3 = 1.4 \<and> ease_factor r3 < ease_factor r2 \<and> MIN_EASE_FACTOR \<le> ease_factor r3)"
proof -
  have h: "''card-1'' \<in> set (flashcards one_card_db)"
    by (simp add: one_card_db_def init_db_def)
  show ?thesis using h scenario_default_profile[OF h, of 0 1000 2000 3000] by simp
qed

subsection \<open>Cards without a review state\<close>

lemma find_None_filter: "find P xs = None \<Longrightarrow> filter (\<lambda>x. \<not> P x) xs = xs"
  by (induction xs) (auto split: if_splits)

lemma preview_review_unknown:
  assumes "get_srs_review db cid = None" and "cid \<notin> set (flashcards db)"
  shows "preview_review db cid d now = Inl IntegrityError"
  using assms by (simp add: preview_review_def initialize_card_unknown)

lemma preview_review_fresh:
  assumes "get_srs_review db cid = None" and "cid \<in> set (flashcards db)"
  shows "database_after (preview_review db cid d now)
           = Inr (db\<lparr>srs_reviews := srs_reviews db @ [fresh_review cid now]\<rparr>)
       \<and> map_option current (returned (preview_review db cid d now)) = Some (fresh_review cid now)"
proof -
  have "filter (\<lambda>x. card_id x \<noteq> cid) (srs_reviews db) = srs_reviews db"
    using assms(1) find_None_filter[of "\<lambda>x. card_id x = cid" "srs_reviews db"]
    by (simp add: get_srs_review_def)
  then show ?thesis using assms
    by (simp add: preview_review_def initialize_card_known database_after_def returned_def Let_def)
qed

lemma preview_review_stored:
  assumes "get_srs_review db cid = Some r0"
  shows "database_after (preview_review db cid d now) = Inr db"
  using assms by (simp add: preview_review_def database_after_def Let_def)

text \<open>
  C7, as stated: a review or a preview of a card id without a review state succeeds also
  when no flashcard row has that id.  There the insert made by initialize_card violates
  the foreign key of \<open>srs_reviews\<close>, and both calls raise.
\<close>

theorem review_unknown_card_counterexample:
  "get_srs_review (init_db 0) ''card-1'' = None
   \<and> review_card (init_db 0) ''card-1'' 3 1000 = Inl IntegrityError
   \<and> preview_review (init_db 0) ''card-1'' 3 1000 = Inl IntegrityError"
  by (simp add: init_db_def get_srs_review_def review_card_def preview_review_def
      initialize_card_def upsert_srs_review_def Let_def)

text \<open>
  C7, amended: for a card id without a review state, review_card and preview_review
  succeed when a flashcard row with that id exists: they start from the freshly
  initialised state.  When no such flashcard row exists, both fail with the integrity
  error of the foreign key.
\<close>

theorem auto_initialize_needs_flashcard:
  assumes "get_srs_review db cid = None"
  shows "if cid \<in> set (flashcards db)
         then returned (review_card db cid d now) = Some (apply_rating (fresh_review cid now) d now)
            \<and> map_option current (returned (preview_review db cid d now))
                = Some (fresh_review cid now)
         else review_card db cid d now = Inl IntegrityError
            \<and> preview_review db cid d now = Inl IntegrityError"
proof (cases "cid \<in> set (flashcards db)")
  case True
  then show ?thesis
    using review_card_fresh[OF assms True, of d now] preview_review_fresh[OF assms True, of d now]
    by (simp add: returned_def)
next
  case False
  then show ?thesis
    using review_card_unknown[OF False, of d now] preview_review_unknown[OF assms False, of d now]
    by simp
qed

theorem auto_initialize_needs_flashcard_witness:
  "get_srs_review one_card_db ''card-1'' = None
   \<and> ''card-1'' \<in> set (flashcards one_card_db)
   \<and> returned (review_card one_card_db ''card-1'' 2 1000)
       = Some (apply_rating (fresh_review ''card-1'' 1000) 2 1000)
   \<and> map_option current (returned (preview_review one_card_db ''card-1'' 2 1000))
       = Some (fresh_review ''card-1'' 1000)
   \<and> get_srs_review one_card_db ''card-2'' = None
   \<and> ''card-2'' \<notin> set (flashcards one_card_db)
   \<and> review_card one_card_db ''card-2'' 2 1000 = Inl IntegrityError
   \<and> preview_review one_card_db ''card-2'' 2 1000 = Inl IntegrityError"
proof -
  have g1: "get_srs_review one_card_db ''card-1'' = None"
    and g2: "get_srs_review one_card_db ''card-2'' = None"
    by (simp_all add: one_card_db_def init_db_def get_srs_review_def)
  have f: "flashcards one_card_db = [''card-1'']"
    by (simp add: one_card_db_def init_db_def)
  show ?thesis
    using g1 g2 f auto_initialize_needs_flashcard[OF g1, of 2 1000]
      auto_initialize_needs_flashcard[OF g2, of 2 1000]
    by simp
qed

lemma preview_review_stats:
  assumes "preview_review db cid d now = Inr (db', p)"
  shows "srs_stats db' = srs_stats db \<and> srs_settings db' = srs_settings db"
  using assms
  by (auto simp: preview_review_def initialize_card_def upsert_srs_review_def Let_def
      split: option.splits if_splits)

text \<open>
  C2: preview_review writes no review state, also for a card that has none.  At a card
  with a flashcard row and no review state the code stores the default state: the call
  to initialize_card inside preview_review upserts it.
\<close>

theorem preview_persists_default_state:
  "srs_reviews one_card_db = []
   \<and> stored_reviews (database_after (preview_review one_card_db ''card-1'' 3 1000))
       = Some [fresh_review ''card-1'' 1000]"
  by (simp add: eval_defs one_card_db_def stored_reviews_def preview_review_def
      database_after_def fresh_review_def)

subsection \<open>Bounds on the ease factor\<close>

text \<open>
  C1, as stated: the ease factor of the reviewed state lies within the bounds of the active
  settings profile.  With a stored profile whose bounds are 2 and 3, the freshly
  initialised state (ease 2.5) lies within them, and a review with difficulty 4 gives the
  ease factor 1.7: review_card clamps with its own constants 1.3 and 2.5.
\<close>

theorem ease_bounds_of_profile_counterexample:
  "map_option (ease_within (get_srs_settings narrow_bounds_db 1000))
     (returned (initialize_card narrow_bounds_db ''card-1'' 0)) = Some True
   \<and> map_option (ease_within (get_srs_settings narrow_bounds_db 1000))
     (returned (then_review (database_after (initialize_card narrow_bounds_db ''card-1'' 0))
        ''card-1'' 4 1000)) = Some False"
  by (simp add: eval_defs one_card_db_def returned_def narrow_bounds_db_def
      get_srs_settings_def default_settings_def
      ease_within_def then_review_def database_after_def)

lemma ease_factor_apply_rating:
  "ease_factor (apply_rating r d now) =
     (if d < 3 then min 2.5 (ease_factor r + (0.1 - real_of_int (3 - d) * (0.08 + real_of_int (3 - d) * 0.02)))
      else if d > 3 then max 1.3 (ease_factor r - 0.8 - real_of_int (d - 4) * 0.28
                     - real_of_int (d - 4) * real_of_int (d - 4) * 0.02)
      else ease_factor r)"
  by (subst apply_rating_fields) simp

lemma apply_rating_ease_bounds:
  assumes "1.3 \<le> ease_factor r0" and "ease_factor r0 \<le> 2.5" and "1 \<le> d" and "d \<le> 5"
  shows "ease_factor (apply_rating r0 d now) \<le> 2.5"
    and "2 \<le> d \<Longrightarrow> 1.3 \<le> ease_factor (apply_rating r0 d now)"
proof -
  consider "d = 1" | "d = 2" | "d = 3" | "d = 4" | "d = 5" using assms(3,4) by linarith
  then show "ease_factor (apply_rating r0 d now) \<le> 2.5"
    using assms(1,2) by cases (auto simp: ease_factor_apply_rating max_def min_def)
  assume "2 \<le> d"
  then consider "d = 2" | "d = 3" | "d = 4" | "d = 5" using assms(4) by linarith
  then show "1.3 \<le> ease_factor (apply_rating r0 d now)"
    using assms(1,2) by cases (auto simp: ease_factor_apply_rating max_def min_def)
qed

text \<open>A rating 1 at the minimum ease factor: the branch for easy ratings has no lower clamp.\<close>

lemma easy_rating_below_minimum:
  "ease_factor r = MIN_EASE_FACTOR \<Longrightarrow> ease_factor (apply_rating r 1 now) = 1.16"
  by (simp add: ease_factor_apply_rating MIN_EASE_FACTOR_def)

text \<open>
  C1, amended: for every review state whose ease factor lies in [1.3, 2.5] (the bounds of
  the default profile, which review_card uses whatever the stored profile is) and every
  difficulty in [1,5], the state produced by review_card has an ease factor of at most
  2.5, and for the difficulties 2 to 5 of at least 1.3.
\<close>

theorem ease_within_default_bounds:
  assumes "review_card db cid d now = Inr (db', r)" and "1 \<le> d" and "d \<le> 5"
    and "\<forall>r0. get_srs_review db cid = Some r0 \<longrightarrow> ease_within (default_settings c u) r0"
  shows "ease_factor r \<le> max_ease_factor (default_settings c u)
       \<and> (2 \<le> d \<longrightarrow> ease_within (default_settings c u) r)"
proof -
  define rr where "rr = (case get_srs_review db cid of Some r0 \<Rightarrow> r0 | None \<Rightarrow> fresh_review cid now)"
  have r: "r = apply_rating rr d now"
    using review_card_result[OF assms(1)] by (simp add: rr_def)
  have "ease_within (default_settings c u) rr"
  proof (cases "get_srs_review db cid")
    case None
    then show ?thesis by (simp add: rr_def fresh_review_def ease_within_def default_settings_def)
  next
    case (Some r0)
    then show ?thesis using assms(4) by (simp add: rr_def)
  qed
  then have b: "1.3 \<le> ease_factor rr" "ease_factor rr \<le> 2.5"
    by (simp_all add: ease_within_def default_settings_def)
  show ?thesis
    using apply_rating_ease_bounds[OF b assms(2,3), of now]
    by (simp add: r ease_within_def default_settings_def)
qed

theorem ease_within_default_bounds_witness:
  "(\<exists>db' r. review_card initialized_db ''card-1'' 4 1000 = Inr (db', r)
             \<and> ease_factor r \<le> max_ease_factor (default_settings 0 0)
             \<and> (2::int) \<le> 4 \<and> ease_within (default_settings 0 0) r)
   \<and> (1::int) \<le> 4 \<and> (4::int) \<le> 5
   \<and> get_srs_review initialized_db ''card-1'' = Some (fresh_review ''card-1'' 0)
   \<and> ease_within (default_settings 0 0) (fresh_review ''card-1'' 0)"
proof -
  have g: "get_srs_review initialized_db ''card-1'' = Some (fresh_review ''card-1'' 0)"
    by (simp add: initialized_db_def get_srs_review_def fresh_review_def)
  have k: "''card-1'' \<in> set (flashcards initialized_db)"
    by (simp add: initialized_db_def one_card_db_def init_db_def)
  have w: "ease_within (default_settings 0 0) (fresh_review ''card-1'' 0)"
    by (simp add: ease_within_def default_settings_def fresh_review_def)
  obtain db' r where s: "review_card initialized_db ''card-1'' 4 1000 = Inr (db', r)"
    using review_card_stored[OF g k, of 4 1000] by simp
  have h: "\<forall>r0. get_srs_review initialized_db ''card-1'' = Some r0
             \<longrightarrow> ease_within (default_settings 0 0) r0"
    using g w by simp
  show ?thesis
    using ease_within_default_bounds[OF s _ _ h] s g w by simp
qed

subsection \<open>The interval of a reachable state\<close>

text \<open>
  C6: every state reached from initialize_card by reviews with difficulties in [1,5] has
  \<open>interval_days \<ge> 1\<close>.  The code reaches \<open>interval_days = 0\<close>: after two
  ratings 4 the ease factor is 1.3, each rating 1 then lowers it by 0.14 with no lower
  clamp (1.16, 1.02, 0.88, 0.74, 0.60, 0.46), and the intervals are 1, 6, 5, 3, 1, 0.
\<close>

theorem interval_reaches_zero:
  "map_option (map interval_days)
     (stored_reviews (initialize_then_review one_card_db ''card-1'' 0
        [(4, 1000), (4, 2000), (1, 3000), (1, 4000), (1, 5000), (1, 6000), (1, 7000), (1, 8000)]))
   = Some [0]"
  by (simp add: eval_defs initialize_then_review_def one_card_db_def stored_reviews_def)

subsection \<open>The settings profile and the scheduler\<close>

text \<open>
  C4, as stated: review_card takes the second interval from the active profile.  With a
  stored profile whose \<open>second_interval\<close> is 10, the second correct review still sets
  the interval to 6.
\<close>

theorem second_interval_ignored_counterexample:
  "map_option second_interval (srs_settings second_interval_db) = Some 10
   \<and> map_option (map interval_days)
       (stored_reviews (initialize_then_review second_interval_db ''card-1'' 0
          [(3, 1000), (3, 2000)])) = Some [6]"
  by (simp add: eval_defs initialize_then_review_def one_card_db_def stored_reviews_def
      second_interval_db_def default_settings_def)

lemma review_card_settings_update:
  "review_card (db\<lparr>srs_settings := s\<rparr>) cid d now =
     (case review_card db cid d now of
        Inl e \<Rightarrow> Inl e
      | Inr (db', r) \<Rightarrow> Inr (db'\<lparr>srs_settings := s\<rparr>, r))"
  by (simp add: review_card_def get_srs_review_def initialize_card_def upsert_srs_review_def
      update_srs_stats_def Let_def split: option.splits)

text \<open>
  C4, amended: review_card does not read the settings profile.  Replacing the stored
  profile by any other changes neither the outcome nor the stored rows; the new state is
  computed from constants that equal the fields of the default profile: at repetition 0 a
  correct answer (difficulty at most 3) sets the interval to 1, at repetition 1 to 6, and
  an incorrect answer sets the repetition to 0 and the interval to 1.
\<close>

theorem review_card_ignores_settings:
  assumes "review_card db cid d now = Inr (db', r)" and "get_srs_review db cid = Some r0"
  shows "review_card (db\<lparr>srs_settings := s\<rparr>) cid d now = Inr (db'\<lparr>srs_settings := s\<rparr>, r)
     \<and> (d \<le> correct_threshold (default_settings c u) \<longrightarrow>
          repetition r0 = 0 \<longrightarrow> interval_days r = initial_interval (default_settings c u))
     \<and> (d \<le> correct_threshold (default_settings c u) \<longrightarrow>
          repetition r0 = 1 \<longrightarrow> interval_days r = second_interval (default_settings c u))
     \<and> (correct_threshold (default_settings c u) < d \<longrightarrow>
          repetition r = 0 \<and> interval_days r = lapse_min_interval (default_settings c u))"
proof -
  have r: "r = apply_rating r0 d now"
    using review_card_result[OF assms(1)] assms(2) by simp
  have 1: "review_card (db\<lparr>srs_settings := s\<rparr>) cid d now = Inr (db'\<lparr>srs_settings := s\<rparr>, r)"
    using assms(1) by (simp add: review_card_settings_update)
  have 2: "repetition r = (if d \<le> 3 then repetition r0 + 1 else 0)"
    unfolding r by (subst apply_rating_fields) simp
  have 3: "interval_days r = (if d \<le> 3 then
           (if repetition r0 = 0 then 1 else if repetition r0 = 1 then 6
            else py_int (real_of_int (interval_days r0) * ease_factor r))
         else 1)"
    unfolding r by (subst apply_rating_fields) simp
  show ?thesis using 1 2 3 by (simp add: default_settings_def)
qed

theorem review_card_ignores_settings_witness:
  "(\<exists>db' r. review_card initialized_db ''card-1'' 3 1000 = Inr (db', r)
      \<and> review_card (initialized_db\<lparr>srs_settings := srs_settings second_interval_db\<rparr>)
            ''card-1'' 3 1000 = Inr (db'\<lparr>srs_settings := srs_settings second_interval_db\<rparr>, r)
      \<and> 3 \<le> correct_threshold (default_settings 0 0)
      \<and> get_srs_review initialized_db ''card-1'' = Some (fresh_review ''card-1'' 0)
      \<and> repetition (fresh_review ''card-1'' 0) = 0
      \<and> interval_days r = initial_interval (default_settings 0 0))
   \<and> (\<exists>db' r. review_card reviewed_once_db ''card-1'' 3 1000 = Inr (db', r)
      \<and> review_card (reviewed_once_db\<lparr>srs_settings := srs_settings second_interval_db\<rparr>)
            ''card-1'' 3 1000 = Inr (db'\<lparr>srs_settings := srs_settings second_interval_db\<rparr>, r)
      \<and> 3 \<le> correct_threshold (default_settings 0 0)
      \<and> get_srs_review reviewed_once_db ''card-1''
           = Some ((fresh_review ''card-1'' 0)\<lparr>repetition := 1\<rparr>)
      \<and> repetition ((fresh_review ''card-1'' 0)\<lparr>repetition := 1\<rparr>) = 1
      \<and> interval_days r = second_interval (default_settings 0 0))
   \<and> (\<exists>db' r. review_card reviewed_once_db ''card-1'' 4 1000 = Inr (db', r)
      \<and> review_card (reviewed_once_db\<lparr>srs_settings := srs_settings second_interval_db\<rparr>)
            ''card-1'' 4 1000 = Inr (db'\<lparr>srs_settings := srs_settings second_interval_db\<rparr>, r)
      \<and> correct_threshold (default_settings 0 0) < 4 \<and> repetition r = 0
      \<and> interval_days r = lapse_min_interval (default_settings 0 0))"
proof -
  have g0: "get_srs_review initialized_db ''card-1'' = Some (fresh_review ''card-1'' 0)"
    by (simp add: initialized_db_def get_srs_review_def fresh_review_def)
  have k0: "''card-1'' \<in> set (flashcards initialized_db)"
    by (simp add: initialized_db_def one_card_db_def init_db_def)
  have g1: "get_srs_review reviewed_once_db ''card-1''
              = Some ((fresh_review ''card-1'' 0)\<lparr>repetition := 1\<rparr>)"
    by (simp add: reviewed_once_db_def get_srs_review_def fresh_review_def)
  have k1: "''card-1'' \<in> set (flashcards reviewed_once_db)"
    by (simp add: reviewed_once_db_def one_card_db_def init_db_def)
  obtain dba ra where a: "review_card initialized_db ''card-1'' 3 1000 = Inr (dba, ra)"
    and ra: "ra = apply_rating (fresh_review ''card-1'' 0) 3 1000"
    using review_card_stored[OF g0 k0, of 3 1000] by simp
  obtain dbb rb where b: "review_card reviewed_once_db ''card-1'' 3 1000 = Inr (dbb, rb)"
    and rb: "rb = apply_rating ((fresh_review ''card-1'' 0)\<lparr>repetition := 1\<rparr>) 3 1000"
    using review_card_stored[OF g1 k1, of 3 1000] by simp
  obtain dbc rc where c: "review_card reviewed_once_db ''card-1'' 4 1000 = Inr (dbc, rc)"
    and rc: "rc = apply_rating ((fresh_review ''card-1'' 0)\<lparr>repetition := 1\<rparr>) 4 1000"
    using review_card_stored[OF g1 k1, of 4 1000] by simp
  have pa: "repetition (fresh_review ''card-1'' 0) = 0" by (simp add: fresh_review_def)
  have pb: "repetition ((fresh_review ''card-1'' 0)\<lparr>repetition := 1\<rparr>) = 1" by simp
  have ct: "correct_threshold (default_settings 0 0) = 3" by (simp add: default_settings_def)
  note A = review_card_ignores_settings[OF a g0, of "srs_settings second_interval_db" 0 0]
  note B = review_card_ignores_settings[OF b g1, of "srs_settings second_interval_db" 0 0]
  note C = review_card_ignores_settings[OF c g1, of "srs_settings second_interval_db" 0 0]
  have "\<exists>db' r. review_card initialized_db ''card-1'' 3 1000 = Inr (db', r)
      \<and> review_card (initialized_db\<lparr>srs_settings := srs_settings second_interval_db\<rparr>)
            ''card-1'' 3 1000 = Inr (db'\<lparr>srs_settings := srs_settings second_interval_db\<rparr>, r)
      \<and> 3 \<le> correct_threshold (default_settings 0 0)
      \<and> get_srs_review initialized_db ''card-1'' = Some (fresh_review ''card-1'' 0)
      \<and> repetition (fresh_review ''card-1'' 0) = 0
      \<and> interval_days r = initial_interval (default_settings 0 0)"
    using a A pa ct g0 by simp
  moreover have "\<exists>db' r. review_card reviewed_once_db ''card-1'' 3 1000 = Inr (db', r)
      \<and> review_card (reviewed_once_db\<lparr>srs_settings := srs_settings second_interval_db\<rparr>)
            ''card-1'' 3 1000 = Inr (db'\<lparr>srs_settings := srs_settings second_interval_db\<rparr>, r)
      \<and> 3 \<le> correct_threshold (default_settings 0 0)
      \<and> get_srs_review reviewed_once_db ''card-1''
           = Some ((fresh_review ''card-1'' 0)\<lparr>repetition := 1\<rparr>)
      \<and> repetition ((fresh_review ''card-1'' 0)\<lparr>repetition := 1\<rparr>) = 1
      \<and> interval_days r = second_interval (default_settings 0 0)"
    using b B pb ct g1 by simp
  moreover have "\<exists>db' r. review_card reviewed_once_db ''card-1'' 4 1000 = Inr (db', r)
      \<and> review_card (reviewed_once_db\<lparr>srs_settings := srs_settings second_interval_db\<rparr>)
            ''card-1'' 4 1000 = Inr (db'\<lparr>srs_settings := srs_settings second_interval_db\<rparr>, r)
      \<and> correct_threshold (default_settings 0 0) < 4 \<and> repetition r = 0
      \<and> interval_days r = lapse_min_interval (default_settings 0 0)"
    using c C ct by simp
  ultimately show ?thesis by blast
qed

subsection \<open>The due queue\<close>

lemma sorted_map_take: "sorted (map f xs) \<Longrightarrow> sorted (map f (take n xs))"
  by (simp add: take_map[symmetric] sorted_wrt_take)

lemma take_below_rest:
  assumes "sorted (map f xs)" and "x \<in> set (take n xs)" and "y \<in> set xs" and "y \<notin> set (take n xs)"
  shows "f x \<le> f y"
proof -
  have "y \<in> set (drop n xs)"
    using assms(3,4) by (metis Un_iff append_take_drop_id set_append)
  moreover have "sorted (map f (take n xs) @ map f (drop n xs))"
    using assms(1) by (simp add: map_append[symmetric] del: map_append)
  ultimately show ?thesis using assms(2) by (auto simp: sorted_append)
qed

text \<open>
  C5, as stated: for every limit the query returns at most limit rows.  The limit is the
  integer parsed from the request; SQLite reads a negative \<open>LIMIT\<close> as no bound, so
  with limit -1 both due rows come back.
\<close>

theorem negative_limit_counterexample:
  "length (get_cards_due_for_review three_rows_db (- 1) 60) = 2
   \<and> \<not> int (length (get_cards_due_for_review three_rows_db (- 1) 60)) \<le> - 1"
  by (simp add: get_cards_due_for_review_def sql_limit_def three_rows_db_def due_row_def
      fresh_review_def)

text \<open>
  C5, amended: for every store, every limit and every query time, the due-cards query
  returns only stored rows with \<open>next_review \<le> now\<close>, each at most as often as it is
  stored, sorted ascending by next_review; for a limit of at least 0 it returns the first
  min(limit, number of due rows) of them, for a negative limit all of them; and every due
  row left out has a next_review no earlier than that of every returned row.
\<close>

theorem due_cards_sorted_prefix:
  "(\<forall>r \<in> set (get_cards_due_for_review db limit now).
       r \<in> set (srs_reviews db) \<and> next_review r \<le> now)
   \<and> sorted (map next_review (get_cards_due_for_review db limit now))
   \<and> mset (get_cards_due_for_review db limit now)
        \<subseteq># mset (filter (\<lambda>r. next_review r \<le> now) (srs_reviews db))
   \<and> (0 \<le> limit \<longrightarrow>
        length (get_cards_due_for_review db limit now)
          = min (nat limit) (length (filter (\<lambda>r. next_review r \<le> now) (srs_reviews db))))
   \<and> (limit < 0 \<longrightarrow>
        mset (get_cards_due_for_review db limit now)
          = mset (filter (\<lambda>r. next_review r \<le> now) (srs_reviews db)))
   \<and> (\<forall>r \<in> set (srs_reviews db). next_review r \<le> now \<longrightarrow>
        r \<notin> set (get_cards_due_for_review db limit now) \<longrightarrow>
        (\<forall>r' \<in> set (get_cards_due_for_review db limit now). next_review r' \<le> next_review r))"
proof -
  define due where "due = filter (\<lambda>r. next_review r \<le> now) (srs_reviews db)"
  define srt where "srt = sort_key next_review due"
  have res: "get_cards_due_for_review db limit now = sql_limit limit srt"
    by (simp add: get_cards_due_for_review_def srt_def due_def)
  have s: "sorted (map next_review srt)" by (simp add: srt_def)
  have m: "mset srt = mset due" by (simp add: srt_def)
  have st: "set srt = set due" by (simp add: srt_def)
  have sub: "set (sql_limit limit srt) \<subseteq> set due"
    using st by (auto simp: sql_limit_def dest: in_set_takeD)
  have 1: "\<forall>r \<in> set (sql_limit limit srt). r \<in> set (srs_reviews db) \<and> next_review r \<le> now"
    using sub by (auto simp: due_def)
  have 2: "sorted (map next_review (sql_limit limit srt))"
    using s by (simp add: sql_limit_def sorted_map_take)
  have "mset (take n srt) \<subseteq># mset srt" for n
    by (metis append_take_drop_id mset_append mset_subset_eq_add_left)
  then have 3: "mset (sql_limit limit srt) \<subseteq># mset due"
    using m by (simp add: sql_limit_def)
  have 4: "0 \<le> limit \<longrightarrow> length (sql_limit limit srt) = min (nat limit) (length due)"
    by (simp add: sql_limit_def srt_def min.commute)
  have 5: "limit < 0 \<longrightarrow> mset (sql_limit limit srt) = mset due"
    using m by (simp add: sql_limit_def)
  have 6: "\<forall>r \<in> set (srs_reviews db). next_review r \<le> now \<longrightarrow>
        r \<notin> set (sql_limit limit srt) \<longrightarrow>
        (\<forall>r' \<in> set (sql_limit limit srt). next_review r' \<le> next_review r)"
  proof (intro ballI impI)
    fix r r'
    assume r: "r \<in> set (srs_reviews db)" "next_review r \<le> now" "r \<notin> set (sql_limit limit srt)"
      and r': "r' \<in> set (sql_limit limit srt)"
    have rin: "r \<in> set srt" using r(1,2) st by (simp add: due_def)
    show "next_review r' \<le> next_review r"
    proof (cases "limit < 0")
      case True
      then show ?thesis using r(3) rin by (simp add: sql_limit_def)
    next
      case False
      then show ?thesis
        using take_below_rest[OF s, of r' "nat limit" r] r(3) r' rin by (simp add: sql_limit_def)
    qed
  qed
  show ?thesis unfolding res due_def[symmetric] using 1 2 3 4 5 6 by blast
qed

theorem due_cards_sorted_prefix_witness:
  "due_row ''b'' 10 \<in> set (get_cards_due_for_review three_rows_db 1 60)
   \<and> due_row ''b'' 10 \<in> set (srs_reviews three_rows_db)
   \<and> next_review (due_row ''b'' 10) \<le> 60
   \<and> sorted (map next_review (get_cards_due_for_review three_rows_db 1 60))
   \<and> (0::int) \<le> 1
   \<and> length (get_cards_due_for_review three_rows_db 1 60) = 1
   \<and> due_row ''a'' 50 \<in> set (srs_reviews three_rows_db)
   \<and> next_review (due_row ''a'' 50) \<le> 60
   \<and> due_row ''a'' 50 \<notin> set (get_cards_due_for_review three_rows_db 1 60)
   \<and> next_review (due_row ''b'' 10) \<le> next_review (due_row ''a'' 50)
   \<and> (- 1::int) < 0
   \<and> mset (get_cards_due_for_review three_rows_db (- 1) 60)
       = mset [due_row ''a'' 50, due_row ''b'' 10]"
proof -
  have rows: "srs_reviews three_rows_db = [due_row ''a'' 50, due_row ''b'' 10, due_row ''c'' 99]"
    by (simp add: three_rows_db_def)
  have due: "filter (\<lambda>r. next_review r \<le> 60) (srs_reviews three_rows_db)
               = [due_row ''a'' 50, due_row ''b'' 10]"
    by (simp add: rows due_row_def fresh_review_def)
  have res: "get_cards_due_for_review three_rows_db 1 60 = [due_row ''b'' 10]"
    by (simp add: get_cards_due_for_review_def sql_limit_def due) (simp add: due_row_def fresh_review_def)
  have ne: "due_row ''a'' 50 \<noteq> due_row ''b'' 10"
    by (simp add: due_row_def fresh_review_def)
  note T = due_cards_sorted_prefix[of three_rows_db 1 60]
  note N = due_cards_sorted_prefix[of three_rows_db "- 1" 60]
  have b: "due_row ''b'' 10 \<in> set (get_cards_due_for_review three_rows_db 1 60)"
    by (simp add: res)
  have a: "due_row ''a'' 50 \<in> set (srs_reviews three_rows_db)"
    "next_review (due_row ''a'' 50) \<le> 60"
    "due_row ''a'' 50 \<notin> set (get_cards_due_for_review three_rows_db 1 60)"
    using ne by (simp_all add: rows res) (simp add: due_row_def fresh_review_def)
  have 1: "due_row ''b'' 10 \<in> set (srs_reviews three_rows_db) \<and> next_review (due_row ''b'' 10) \<le> 60"
    using T b by blast
  have 2: "sorted (map next_review (get_cards_due_for_review three_rows_db 1 60))"
    using T by blast
  have 3: "length (get_cards_due_for_review three_rows_db 1 60) = 1"
    using T due by simp
  have 4: "next_review (due_row ''b'' 10) \<le> next_review (due_row ''a'' 50)"
    using T a b by blast
  have 5: "mset (get_cards_due_for_review three_rows_db (- 1) 60)
       = mset [due_row ''a'' 50, due_row ''b'' 10]"
    using N due by simp
  show ?thesis using 1 2 3 4 5 a b by simp
qed

subsection \<open>Validation of a settings update\<close>

text \<open>
  C8: every update the settings endpoint accepts leaves a stored profile that satisfies
  the cross-field constraints, also when only one field of a pair is supplied.  The
  endpoint compares the two ease bounds only when the request holds both: from the
  default profile (minimum 1.3), the request \<open>{max_ease_factor: 1.2}\<close> passes every check
  and is committed, and the stored profile then has its minimum above its maximum.
\<close>

theorem single_field_update_breaks_bounds:
  "map_option settings_valid (srs_settings (init_db 0)) = Some True
   \<and> validation_errors only_max_ease = []
   \<and> stored_settings_valid (update_srs_settings_endpoint (init_db 0) only_max_ease 1000)
       = Some False"
  by (simp add: init_db_def default_settings_def settings_valid_def validation_errors_def
      only_max_ease_def empty_body_def stored_settings_valid_def update_srs_settings_endpoint_def
      update_srs_settings_def get_srs_settings_def supplied_or_def Let_def)

subsection \<open>The stats counters\<close>

lemma review_card_stats:
  assumes "review_card db cid d now = Inr (db', r)"
  shows "total_reviews (srs_stats db') = total_reviews (srs_stats db) + 1"
    and "correct_answers (srs_stats db')
           = correct_answers (srs_stats db) + (if d \<le> 3 then 1 else 0)"
  using assms
  by (auto simp: review_card_def initialize_card_def upsert_srs_review_def update_srs_stats_def
      Let_def split: option.splits if_splits)

lemma perform_plausible:
  assumes "plausible op" and "correct_answers (srs_stats db) \<le> total_reviews (srs_stats db)"
  shows "total_reviews (srs_stats db) \<le> total_reviews (srs_stats (perform db op))
       \<and> correct_answers (srs_stats db) \<le> correct_answers (srs_stats (perform db op))
       \<and> correct_answers (srs_stats (perform db op)) \<le> total_reviews (srs_stats (perform db op))"
proof (cases op)
  case (Pair o' now)
  show ?thesis
  proof (cases o')
    case (Review cid d)
    show ?thesis
    proof (cases "review_card db cid d now")
      case (Inl e)
      then show ?thesis using assms(2) by (simp add: Pair Review)
    next
      case (Inr p)
      obtain db' r where p: "p = (db', r)" by (cases p)
      show ?thesis
        using review_card_stats[OF Inr[unfolded p]] assms(2) by (simp add: Pair Review Inr p)
    qed
  next
    case (Adjust_stats data)
    then show ?thesis
      using assms
      by (auto simp: Pair update_srs_stats_endpoint_def update_srs_stats_def split: option.splits)
  qed
qed

text \<open>
  C9, as stated: the counters never decrease and \<open>correct_answers \<le> total_reviews\<close>
  holds after every sequence of reviews and stats adjustments.  The adjustment adds the
  deltas of the request as they are: a request with \<open>correct_answers_delta = 1\<close> alone
  takes the counters from (0, 0) to (0, 1), and one with \<open>total_reviews_delta = -1\<close>
  lowers the total.
\<close>

theorem stats_adjustment_counterexample:
  "\<not> correct_answers
        (srs_stats (perform_all (init_db 0) [(Adjust_stats correct_only_adjustment, 1000)]))
      \<le> total_reviews
          (srs_stats (perform_all (init_db 0) [(Adjust_stats correct_only_adjustment, 1000)]))
   \<and> total_reviews (srs_stats (perform_all (init_db 0) [(Adjust_stats negative_adjustment, 1000)]))
       < total_reviews (srs_stats (init_db 0))
   \<and> srs_stats (perform_all (init_db 0) [(Adjust_stats correct_only_adjustment, 1000)])
     = \<lparr>total_reviews = 0, correct_answers = 1, last_updated = 1000\<rparr>
   \<and> srs_stats (perform_all (init_db 0) [(Adjust_stats negative_adjustment, 1000)])
     = \<lparr>total_reviews = - 1, correct_answers = 0, last_updated = 1000\<rparr>"
  by (simp add: perform_all_def update_srs_stats_endpoint_def update_srs_stats_def init_db_def
      correct_only_adjustment_def negative_adjustment_def)

text \<open>
  C9, amended: across every sequence of committed reviews and of stats adjustments whose
  deltas satisfy \<open>0 \<le> correct_answers_delta \<le> total_reviews_delta\<close>, the two counters
  never decrease, and \<open>correct_answers \<le> total_reviews\<close> holds afterwards when it held
  before, as it does for the initial stats (0, 0).
\<close>

theorem stats_monotone_plausible_ops:
  assumes "\<forall>op \<in> set ops. plausible op"
    and "correct_answers (srs_stats db) \<le> total_reviews (srs_stats db)"
  shows "total_reviews (srs_stats db) \<le> total_reviews (srs_stats (perform_all db ops))
       \<and> correct_answers (srs_stats db) \<le> correct_answers (srs_stats (perform_all db ops))
       \<and> correct_answers (srs_stats (perform_all db ops))
            \<le> total_reviews (srs_stats (perform_all db ops))"
  using assms
proof (induction ops arbitrary: db)
  case Nil
  then show ?case by (simp add: perform_all_def)
next
  case (Cons op ops)
  have p: "plausible op" using Cons.prems(1) by simp
  note step = perform_plausible[OF p Cons.prems(2)]
  have rest: "\<forall>op \<in> set ops. plausible op" using Cons.prems(1) by simp
  from step have inv: "correct_answers (srs_stats (perform db op))
       \<le> total_reviews (srs_stats (perform db op))" by simp
  note ih = Cons.IH[OF rest inv]
  have unfold: "perform_all db (op # ops) = perform_all (perform db op) ops"
    by (simp add: perform_all_def)
  show ?case unfolding unfold using step ih by linarith
qed

theorem stats_monotone_plausible_ops_witness:
  "sample_ops = [(Review ''card-1'' 2, 1000), (Adjust_stats plausible_adjustment, 2000)]
   \<and> plausible (Review ''card-1'' 2, 1000)
   \<and> plausible (Adjust_stats plausible_adjustment, 2000)
   \<and> correct_answers (srs_stats one_card_db) \<le> total_reviews (srs_stats one_card_db)
   \<and> total_reviews (srs_stats one_card_db) = 0
   \<and> correct_answers (srs_stats one_card_db) = 0
   \<and> total_reviews (srs_stats (perform_all one_card_db sample_ops)) = 3
   \<and> correct_answers (srs_stats (perform_all one_card_db sample_ops)) = 2
   \<and> total_reviews (srs_stats one_card_db)
        \<le> total_reviews (srs_stats (perform_all one_card_db sample_ops))
   \<and> correct_answers (srs_stats one_card_db)
        \<le> correct_answers (srs_stats (perform_all one_card_db sample_ops))
   \<and> correct_answers (srs_stats (perform_all one_card_db sample_ops))
        \<le> total_reviews (srs_stats (perform_all one_card_db sample_ops))"
proof -
  have h1: "\<forall>op \<in> set sample_ops. plausible op"
    by (simp add: sample_ops_def plausible_adjustment_def)
  have h2: "correct_answers (srs_stats one_card_db) \<le> total_reviews (srs_stats one_card_db)"
    by (simp add: one_card_db_def init_db_def)
  have v: "total_reviews (srs_stats one_card_db) = 0 \<and> correct_answers (srs_stats one_card_db) = 0"
    by (simp add: one_card_db_def init_db_def)
  have e: "total_reviews (srs_stats (perform_all one_card_db sample_ops)) = 3
     \<and> correct_answers (srs_stats (perform_all one_card_db sample_ops)) = 2"
    by (simp add: eval_defs one_card_db_def perform_all_def sample_ops_def plausible_adjustment_def
        update_srs_stats_endpoint_def)
  have p: "plausible (Review ''card-1'' 2, 1000)
     \<and> plausible (Adjust_stats plausible_adjustment, 2000)"
    by (simp add: plausible_adjustment_def)
  show ?thesis
    using stats_monotone_plausible_ops[OF h1 h2] h2 v e p by (simp add: sample_ops_def)
qed

subsection \<open>The streak\<close>

lemma utc_day_shift: "utc_day (now - real_of_int i * 86400) = utc_day now - i"
proof -
  have "\<lfloor>now - real_of_int i * 86400\<rfloor> = \<lfloor>now\<rfloor> - i * 86400"
    by (metis floor_diff_of_int of_int_mult of_int_numeral)
  then show ?thesis by (simp add: utc_day_def)
qed

lemma streak_loop_unfold:
  "streak_loop days now i n =
     (if i < 365 then
        (if utc_day now - i \<in> days then streak_loop days now (i + 1) (n + 1) else n)
      else n)"
  by (subst streak_loop.simps) (simp add: utc_day_shift)

lemma streak_loop_bounds:
  "i \<le> 365 \<Longrightarrow> n \<le> streak_loop days now i n \<and> streak_loop days now i n \<le> n + (365 - i)"
proof (induction days now i n rule: streak_loop.induct)
  case (1 days now i n)
  show ?case
  proof (cases "i < 365 \<and> utc_day (now - real_of_int i * 86400) \<in> days")
    case True
    then have "i + 1 \<le> 365" by simp
    with "1.IH" True
    have "n + 1 \<le> streak_loop days now (i + 1) (n + 1)
        \<and> streak_loop days now (i + 1) (n + 1) \<le> n + 1 + (365 - (i + 1))" by blast
    moreover have "streak_loop days now i n = streak_loop days now (i + 1) (n + 1)"
      using True by (subst streak_loop.simps) simp
    ultimately show ?thesis by simp
  next
    case False
    then have "streak_loop days now i n = n"
      by (subst streak_loop.simps) auto
    then show ?thesis using "1.prems" by simp
  qed
qed

text \<open>
  C10: correct reviews on the three consecutive UTC days D-2, D-1 and D and none on D-3
  give the streak 3 on day D, the qualifying days being those of all reviews with
  difficulty at most 3.  get_srs_streak, documented as the consecutive-day streak with at
  least one correct review, reads the days from \<open>srs_reviews\<close>, which holds one row
  per card, overwritten by each review.  One card reviewed correctly on the days 100, 101
  and 102, and never on day 99, leaves the single day 102, and on day 102 the function
  returns the streak 1.
\<close>

theorem one_card_three_days_streak:
  "utc_day (8640001000 / 1000) = 100
   \<and> utc_day (8726401000 / 1000) = 101
   \<and> utc_day (8812801000 / 1000) = 102
   \<and> utc_day 8812805 = 102
   \<and> streak_after
     (initialize_then_review one_card_db ''card-1'' 0
        [(2, 8640001000), (2, 8726401000), (2, 8812801000)])
     8812805 = Some (1, True)"
  by (simp add: eval_defs initialize_then_review_def one_card_db_def streak_after_def
      get_srs_streak_def days_with_review_def utc_day_def
      streak_loop_unfold)

lemma days_with_review_image:
  "days_with_review db
     = (\<lambda>r. utc_day (real_of_int (last_review r) / 1000))
         ` {r \<in> set (srs_reviews db). difficulty r \<le> 3}"
  unfolding days_with_review_def by (simp add: image_set[symmetric] del: image_set)

lemma streak_loop_three:
  assumes "utc_day now \<in> days" "utc_day now - 1 \<in> days"
    "utc_day now - 2 \<in> days" "utc_day now - 3 \<notin> days"
  shows "streak_loop days now 0 0 = 3"
proof -
  have "streak_loop days now 0 0 = streak_loop days now 1 1"
    using assms(1) by (subst streak_loop_unfold) simp
  also have "\<dots> = streak_loop days now 2 2"
    using assms(2) by (subst streak_loop_unfold) simp
  also have "\<dots> = streak_loop days now 3 3"
    using assms(3) by (subst streak_loop_unfold) simp
  also have "\<dots> = 3"
    using assms(4) by (subst streak_loop_unfold) simp
  finally show ?thesis .
qed

text \<open>
  What get_srs_streak computes from the rows it reads: the days it walks over are the UTC
  days of \<open>last_review\<close> of the stored rows with difficulty at most 3.  When the days
  D, D-1 and D-2 are among them and D-3 is not, the streak computed on day D is 3 and
  today_has_review is true; the streak lies between 0 and 365; the result is (0, false)
  when no row qualifies; and today_has_review is true exactly when today's UTC day is
  among those days.
\<close>

lemma streak_from_stored_rows:
  "days_with_review db
     = (\<lambda>r. utc_day (real_of_int (last_review r) / 1000))
         ` {r \<in> set (srs_reviews db). difficulty r \<le> 3}
   \<and> (utc_day now \<in> days_with_review db \<and> utc_day now - 1 \<in> days_with_review db
        \<and> utc_day now - 2 \<in> days_with_review db \<and> utc_day now - 3 \<notin> days_with_review db
       \<longrightarrow> get_srs_streak db now = (3, True))
   \<and> 0 \<le> fst (get_srs_streak db now) \<and> fst (get_srs_streak db now) \<le> 365
   \<and> (days_with_review db = {} \<longrightarrow> get_srs_streak db now = (0, False))
   \<and> snd (get_srs_streak db now) = (utc_day now \<in> days_with_review db)"
proof (intro conjI impI)
  show "days_with_review db
     = (\<lambda>r. utc_day (real_of_int (last_review r) / 1000))
         ` {r \<in> set (srs_reviews db). difficulty r \<le> 3}"
    by (rule days_with_review_image)
next
  assume a: "utc_day now \<in> days_with_review db \<and> utc_day now - 1 \<in> days_with_review db
        \<and> utc_day now - 2 \<in> days_with_review db \<and> utc_day now - 3 \<notin> days_with_review db"
  then have ne: "days_with_review db \<noteq> {}" by blast
  have "streak_loop (days_with_review db) now 0 0 = 3"
    using a by (intro streak_loop_three) simp_all
  then show "get_srs_streak db now = (3, True)"
    using ne a by (simp add: get_srs_streak_def Let_def)
next
  show "0 \<le> fst (get_srs_streak db now)"
    using streak_loop_bounds[of 0 0 "days_with_review db" now]
    by (simp add: get_srs_streak_def Let_def)
next
  show "fst (get_srs_streak db now) \<le> 365"
    using streak_loop_bounds[of 0 0 "days_with_review db" now]
    by (simp add: get_srs_streak_def Let_def)
next
  assume "days_with_review db = {}"
  then show "get_srs_streak db now = (0, False)"
    by (simp add: get_srs_streak_def Let_def)
next
  show "snd (get_srs_streak db now) = (utc_day now \<in> days_with_review db)"
    by (simp add: get_srs_streak_def Let_def)
qed

text \<open>Three cards last reviewed on the days 100, 101 and 102, and a store without rows.\<close>

lemma streak_three_stored_days:
  "utc_day 8812805 \<in> days_with_review three_days_db
   \<and> utc_day 8812805 - 1 \<in> days_with_review three_days_db
   \<and> utc_day 8812805 - 2 \<in> days_with_review three_days_db
   \<and> utc_day 8812805 - 3 \<notin> days_with_review three_days_db
   \<and> get_srs_streak three_days_db 8812805 = (3, True)
   \<and> days_with_review one_card_db = {}
   \<and> get_srs_streak one_card_db 8812805 = (0, False)"
proof -
  have d: "days_with_review three_days_db = {100, 101, 102}"
    by (simp add: days_with_review_def three_days_db_def due_row_def fresh_review_def utc_day_def
        insert_commute)
  have t: "utc_day 8812805 = 102" by (simp add: utc_day_def)
  have e: "days_with_review one_card_db = {}"
    by (simp add: days_with_review_def one_card_db_def init_db_def)
  have h: "utc_day 8812805 \<in> days_with_review three_days_db
   \<and> utc_day 8812805 - 1 \<in> days_with_review three_days_db
   \<and> utc_day 8812805 - 2 \<in> days_with_review three_days_db
   \<and> utc_day 8812805 - 3 \<notin> days_with_review three_days_db"
    by (simp add: d t)
  note T = streak_from_stored_rows[of three_days_db 8812805]
  note E = streak_from_stored_rows[of one_card_db 8812805]
  have a: "get_srs_streak three_days_db 8812805 = (3, True)"
    using T h by (elim conjE) (erule mp[rotated], simp)
  have b: "get_srs_streak one_card_db 8812805 = (0, False)"
    using E e by (elim conjE) simp
  show ?thesis using h a b e by simp
qed

end
